theory Spec2Isabelle
  imports Complex_Main "HOL-Library.Sublist"
begin

section \<open>JSON values and request payloads\<close>

text \<open>
  The request body is what \<^verbatim>\<open>express.json()\<close> hands to a handler: a parsed JSON object.
  A JSON value is one of the six JSON kinds; an object is a finite map from keys to values,
  and reading a key that is not there gives \<^verbatim>\<open>undefined\<close>, here \<open>None\<close>.
\<close>

datatype json =
    JNull
  | JBool bool
  | JNum rat
  | JStr string
  | JArr "json list"
  | JObj "(string \<times> json) list"

type_synonym jsobject = "string \<rightharpoonup> json"

text \<open>
  JavaScript truthiness, as the operator \<^verbatim>\<open>!\<close> reads it: \<^verbatim>\<open>undefined\<close>, \<^verbatim>\<open>null\<close>,
  \<^verbatim>\<open>false\<close>, \<^verbatim>\<open>0\<close> and the empty string are falsy, every other value is truthy.
\<close>

fun truthy :: "json option \<Rightarrow> bool" where
  "truthy None = False"
| "truthy (Some JNull) = False"
| "truthy (Some (JBool b)) = b"
| "truthy (Some (JNum n)) = (n \<noteq> 0)"
| "truthy (Some (JStr s)) = (s \<noteq> [])"
| "truthy (Some (JArr xs)) = True"
| "truthy (Some (JObj kvs)) = True"

section \<open>Requests, responses and the store interface\<close>

text \<open>
  A handler reads \<^verbatim>\<open>req.params.id\<close> and \<^verbatim>\<open>req.body\<close>, and answers with
  \<^verbatim>\<open>res.status(c).json(x)\<close>, where \<open>x\<close> is an error object \<^verbatim>\<open>{error: msg}\<close>, the array
  returned by \<^verbatim>\<open>find\<close>, or a single document (or \<^verbatim>\<open>null\<close>). A response that a
  middleware ends without a body carries none.
\<close>

record request =
  params_id :: string
  req_body :: jsobject

datatype 'd payload =
    ErrorBody string
  | Items "'d list"
  | Item "'d option"
  | NoContent

record 'd response =
  status :: nat
  body :: "'d payload"

text \<open>
  The handlers reach the store through three operations of the model \<^verbatim>\<open>Todo\<close>:
  \<^verbatim>\<open>Todo.find({})\<close>, \<^verbatim>\<open>new Todo(doc).save()\<close> and
  \<^verbatim>\<open>Todo.findByIdAndUpdate(id, update, {new: b})\<close>. Each one either resolves with a
  value or throws, and may change the collection; the collection state is threaded
  explicitly. The model is a parameter of every handler, as the tests replace its
  operations by mocks that throw.
\<close>

datatype store_error = CastError | ValidationError | StoreFailure

record ('d, 's) model =
  find_op :: "'s \<Rightarrow> (store_error + 'd list) \<times> 's"
  save_op :: "jsobject \<Rightarrow> 's \<Rightarrow> (store_error + 'd) \<times> 's"
  findByIdAndUpdate_op :: "string \<Rightarrow> jsobject \<Rightarrow> bool \<Rightarrow> 's \<Rightarrow> (store_error + 'd option) \<times> 's"

text \<open>
  What a handler did: its response, the store operations it invoked, in order, and the
  collection state it left behind.
\<close>

datatype store_call =
    Find
  | Save jsobject
  | FindByIdAndUpdate string jsobject bool

record ('d, 's) outcome =
  reply :: "'d response"
  calls :: "store_call list"
  state :: 's

section \<open>The handlers of todosController\<close>

definition internal_server_error :: "'d response" where
  "internal_server_error = \<lparr>status = 500, body = ErrorBody ''Internal server error''\<rparr>"

definition getAllTodos :: "('d, 's) model \<Rightarrow> request \<Rightarrow> 's \<Rightarrow> ('d, 's) outcome" where
  "getAllTodos Todo req s =
     (case find_op Todo s of
        (Inr todos, s') \<Rightarrow>
          \<lparr>reply = \<lparr>status = 200, body = Items todos\<rparr>, calls = [Find], state = s'\<rparr>
      | (Inl error, s') \<Rightarrow>
          \<lparr>reply = internal_server_error, calls = [Find], state = s'\<rparr>)"

definition addTodo :: "('d, 's) model \<Rightarrow> request \<Rightarrow> 's \<Rightarrow> ('d, 's) outcome" where
  "addTodo Todo req s =
     (case save_op Todo (req_body req) s of
        (Inr newTodo, s') \<Rightarrow>
          \<lparr>reply = \<lparr>status = 201, body = Item (Some newTodo)\<rparr>,
           calls = [Save (req_body req)], state = s'\<rparr>
      | (Inl error, s') \<Rightarrow>
          \<lparr>reply = internal_server_error, calls = [Save (req_body req)], state = s'\<rparr>)"

definition editTodo :: "('d, 's) model \<Rightarrow> request \<Rightarrow> 's \<Rightarrow> ('d, 's) outcome" where
  "editTodo Todo req s =
     (let tid = params_id req; newValue = req_body req in
      if (\<not> truthy (newValue ''title'') \<and> \<not> truthy (newValue ''completed''))
          \<or> newValue ''title'' = Some (JStr '''')
      then \<lparr>reply = \<lparr>status = 400, body = ErrorBody ''Invalid request''\<rparr>,
            calls = [], state = s\<rparr>
      else
        (case findByIdAndUpdate_op Todo tid newValue True s of
           (Inr editedTodo, s') \<Rightarrow>
             \<lparr>reply = \<lparr>status = 200, body = Item editedTodo\<rparr>,
              calls = [FindByIdAndUpdate tid newValue True], state = s'\<rparr>
         | (Inl error, s') \<Rightarrow>
             \<lparr>reply = internal_server_error,
              calls = [FindByIdAndUpdate tid newValue True], state = s'\<rparr>))"

text \<open>The condition under which \<open>editTodo\<close> rejects a payload, as the handler writes it.\<close>

definition invalid_request :: "jsobject \<Rightarrow> bool" where
  "invalid_request newValue \<longleftrightarrow>
     (\<not> truthy (newValue ''title'') \<and> \<not> truthy (newValue ''completed''))
     \<or> newValue ''title'' = Some (JStr '''')"

text \<open>
  The reading of the update contract in the specification: a payload \<^emph>\<open>supplies\<close> a field
  when the key is present, whatever its value.
\<close>

definition supplies :: "jsobject \<Rightarrow> string \<Rightarrow> bool" where
  "supplies newValue k \<longleftrightarrow> newValue k \<noteq> None"

definition invalid_request_spec :: "jsobject \<Rightarrow> bool" where
  "invalid_request_spec newValue \<longleftrightarrow>
     (\<not> supplies newValue ''title'' \<and> \<not> supplies newValue ''completed'')
     \<or> newValue ''title'' = Some (JStr '''')"

definition invalid_request_reply :: "'d response" where
  "invalid_request_reply = \<lparr>status = 400, body = ErrorBody ''Invalid request''\<rparr>"

section \<open>The document store behind the model\<close>

text \<open>
  Modelled from the spec: the schema of the model (models/todoModel.ts) and the document
  store it is bound to are not part of the sources. An Item has an opaque unique
  identifier generated by the store on insert, a non-empty text \<open>title\<close> that is required
  at creation, and a boolean \<open>completed\<close> that defaults to false when omitted at creation.
  The collection keeps its Items in insertion order.
\<close>

record todo =
  todo_id :: nat
  title :: string
  completed :: bool

text \<open>Modelled from the spec: the store holds one flat collection of Items; the
  counter stands for its identifier generator.\<close>

record collection =
  docs :: "todo list"
  next_id :: nat

text \<open>
  Modelled from the spec: a request identifier is syntactically valid iff it is a
  fixed-length hexadecimal token, 24 hexadecimal digits in the reference store; the
  identifier it denotes is the number the digits spell.
\<close>

definition hex_value :: "char \<Rightarrow> nat option" where
  "hex_value c =
     (let n = (of_char c :: nat) in
      if 48 \<le> n \<and> n \<le> 57 then Some (n - 48)
      else if 97 \<le> n \<and> n \<le> 102 then Some (n - 87)
      else if 65 \<le> n \<and> n \<le> 70 then Some (n - 55)
      else None)"

text \<open>Modelled from the spec: the number a string of hexadecimal digits spells, none
  when a character is not a hexadecimal digit.\<close>

fun hex_number :: "nat \<Rightarrow> string \<Rightarrow> nat option" where
  "hex_number acc [] = Some acc"
| "hex_number acc (c # cs) =
     (case hex_value c of None \<Rightarrow> None | Some v \<Rightarrow> hex_number (16 * acc + v) cs)"

text \<open>Modelled from the spec: the identifier a path token denotes, none when the token
  is not syntactically valid.\<close>

definition objectId_of :: "string \<Rightarrow> nat option" where
  "objectId_of s = (if length s = 24 then hex_number 0 s else None)"

text \<open>
  The store's reading of a path token, after the reference store: the 24-digit
  hexadecimal token of the specification denotes the identifier its digits spell; a
  string of 12 characters is read as the 12 bytes of an identifier; any other token
  cannot be cast. Only the first case is in the specification; that the store raises on
  a token it cannot cast is what the repository's test
  \<^verbatim>\<open>PATCH /todos/id returns 500 status error if it cannot update todo\<close> observes for the
  token \<^verbatim>\<open>123\<close>.
\<close>

fun bytes_number :: "nat \<Rightarrow> string \<Rightarrow> nat" where
  "bytes_number acc [] = acc"
| "bytes_number acc (c # cs) = bytes_number (256 * acc + of_char c) cs"

definition cast_id :: "string \<Rightarrow> nat option" where
  "cast_id s =
     (case objectId_of s of
        Some oid \<Rightarrow> Some oid
      | None \<Rightarrow> (if length s = 12 then Some (bytes_number 0 s) else None))"

text \<open>Modelled from the spec: find-all returns every Item of the collection.\<close>

definition Todo_find :: "collection \<Rightarrow> (store_error + todo list) \<times> collection" where
  "Todo_find c = (Inr (docs c), c)"

text \<open>
  Modelled from the spec: insert checks the payload against the schema (a non-empty text
  title, an optional boolean completed defaulting to false), assigns a fresh identifier
  and appends the Item; a payload that fails the schema makes the store raise.
\<close>

definition insert_doc :: "string \<Rightarrow> bool \<Rightarrow> collection \<Rightarrow> (store_error + todo) \<times> collection" where
  "insert_doc t b c =
     (let d = \<lparr>todo_id = next_id c, title = t, completed = b\<rparr>
      in (Inr d, \<lparr>docs = docs c @ [d], next_id = Suc (next_id c)\<rparr>))"

text \<open>Modelled from the spec: the schema check of insert, title required and non-empty,
  completed optional and false by default.\<close>

definition Todo_save :: "jsobject \<Rightarrow> collection \<Rightarrow> (store_error + todo) \<times> collection" where
  "Todo_save doc c =
     (case doc ''title'' of
        Some (JStr t) \<Rightarrow>
          (if t = [] then (Inl ValidationError, c)
           else (case doc ''completed'' of
                   None \<Rightarrow> insert_doc t False c
                 | Some (JBool b) \<Rightarrow> insert_doc t b c
                 | Some other \<Rightarrow> (Inl ValidationError, c)))
      | other \<Rightarrow> (Inl ValidationError, c))"

text \<open>
  Modelled from the spec: the update payload may hold a text \<open>title\<close> and a boolean
  \<open>completed\<close>, which are the fields to merge. A supplied field of another type makes the
  store raise.
\<close>

definition cast_update :: "jsobject \<Rightarrow> (string option \<times> bool option) option" where
  "cast_update upd =
     (case upd ''title'' of
        None \<Rightarrow>
          (case upd ''completed'' of
             None \<Rightarrow> Some (None, None)
           | Some (JBool b) \<Rightarrow> Some (None, Some b)
           | Some other \<Rightarrow> None)
      | Some (JStr t) \<Rightarrow>
          (case upd ''completed'' of
             None \<Rightarrow> Some (Some t, None)
           | Some (JBool b) \<Rightarrow> Some (Some t, Some b)
           | Some other \<Rightarrow> None)
      | Some other \<Rightarrow> None)"

text \<open>Modelled from the spec: the supplied fields replace those of the Item, the
  identifier and the fields not supplied stay.\<close>

definition merge_fields :: "string option \<times> bool option \<Rightarrow> todo \<Rightarrow> todo" where
  "merge_fields u d =
     (let d1 = (case fst u of None \<Rightarrow> d | Some t \<Rightarrow> d\<lparr>title := t\<rparr>)
      in (case snd u of None \<Rightarrow> d1 | Some b \<Rightarrow> d1\<lparr>completed := b\<rparr>))"

text \<open>Modelled from the spec: the Item with the identifier, before and after the update,
  and the collection with the Item updated in place; none when no Item has it.\<close>

fun update_first :: "nat \<Rightarrow> (todo \<Rightarrow> todo) \<Rightarrow> todo list \<Rightarrow> (todo \<times> todo) option \<times> todo list" where
  "update_first oid f [] = (None, [])"
| "update_first oid f (d # ds) =
     (if todo_id d = oid then (Some (d, f d), f d # ds)
      else (case update_first oid f ds of (r, ds') \<Rightarrow> (r, d # ds')))"

text \<open>The collection with the Item \<open>d\<close> replaced by \<open>d'\<close>, every other Item as it was.\<close>

definition replace_doc :: "todo \<Rightarrow> todo \<Rightarrow> todo list \<Rightarrow> todo list" where
  "replace_doc d d' ds = map (\<lambda>x. if todo_id x = todo_id d then d' else x) ds"

text \<open>
  Modelled from the spec: find-by-id-and-update merges the supplied fields into the Item
  with the identifier and returns null when no Item has it. The order of its steps, cast
  of the identifier, cast of the payload, lookup, merge, and the raise when a cast fails
  are those of the reference store. The option \<open>new\<close> selects the Item as it is after
  the update rather than before it.
\<close>

definition Todo_findByIdAndUpdate ::
  "string \<Rightarrow> jsobject \<Rightarrow> bool \<Rightarrow> collection \<Rightarrow> (store_error + todo option) \<times> collection" where
  "Todo_findByIdAndUpdate tid upd new c =
     (case cast_id tid of
        None \<Rightarrow> (Inl CastError, c)
      | Some oid \<Rightarrow>
          (case cast_update upd of
             None \<Rightarrow> (Inl CastError, c)
           | Some u \<Rightarrow>
               (case update_first oid (merge_fields u) (docs c) of
                  (None, ds) \<Rightarrow> (Inr None, c)
                | (Some (before, after), ds) \<Rightarrow>
                    (Inr (Some (if new then after else before)), c\<lparr>docs := ds\<rparr>))))"

text \<open>Modelled from the spec: the model the handlers import, made of the three store
  operations above.\<close>

definition Todo :: "(todo, collection) model" where
  "Todo = \<lparr>find_op = Todo_find, save_op = Todo_save,
           findByIdAndUpdate_op = Todo_findByIdAndUpdate\<rparr>"

text \<open>
  The tests replace one operation of the model by a function that throws
  (\<^verbatim>\<open>jest.spyOn(...).mockImplementation(() => { throw new Error("Simulated error") })\<close>).
\<close>

definition mock_find_throws :: "('d, 's) model \<Rightarrow> ('d, 's) model" where
  "mock_find_throws M = M\<lparr>find_op := (\<lambda>s. (Inl StoreFailure, s))\<rparr>"

definition mock_save_throws :: "('d, 's) model \<Rightarrow> ('d, 's) model" where
  "mock_save_throws M = M\<lparr>save_op := (\<lambda>doc s. (Inl StoreFailure, s))\<rparr>"

text \<open>Modelled from the spec: the invariant of the collection, identifiers are unique
  and were all generated by the store.\<close>

definition wf_collection :: "collection \<Rightarrow> bool" where
  "wf_collection c \<longleftrightarrow>
     distinct (map todo_id (docs c)) \<and> (\<forall>d \<in> set (docs c). todo_id d < next_id c)"

section \<open>The application: mounting the routers\<close>

text \<open>
  \<^verbatim>\<open>app.use(mw)\<close> adds a middleware that either ends the request with a response or hands
  it on; \<^verbatim>\<open>app.use(path, router)\<close> mounts a router under a path. A request runs through
  the layers in the order they were added; a router is consulted when its mount path
  matches the beginning of the request path, and hands the request on when none of its
  routes matches. A request that no layer answers gets the framework's 404, and no
  handler has run. The two middleware and the two routers are parameters: their code is
  not part of the sources.
\<close>

record http_request =
  http_method :: string
  url :: "string list"

datatype 'r http_result = NotFound | Responded 'r

type_synonym 'r middleware = "http_request \<Rightarrow> 'r option"

type_synonym ('r, 's) router = "string \<Rightarrow> string list \<Rightarrow> 's \<Rightarrow> ('r \<times> 's) option"

datatype ('r, 's) layer =
    Use "'r middleware"
  | Mount "string list" "('r, 's) router"

text \<open>
  The framework compares a mount path with the request path segment by segment and
  without regard to the case of letters.
\<close>

definition lower_char :: "char \<Rightarrow> char" where
  "lower_char c =
     (let n = (of_char c :: nat) in if 65 \<le> n \<and> n \<le> 90 then char_of (n + 32) else c)"

definition mount_matches :: "string list \<Rightarrow> string list \<Rightarrow> bool" where
  "mount_matches p path \<longleftrightarrow> prefix (map (map lower_char) p) (map (map lower_char) path)"

fun handle :: "('r, 's) layer list \<Rightarrow> http_request \<Rightarrow> 's \<Rightarrow> 'r http_result \<times> 's" where
  "handle [] req s = (NotFound, s)"
| "handle (Use mw # ls) req s =
     (case mw req of Some r \<Rightarrow> (Responded r, s) | None \<Rightarrow> handle ls req s)"
| "handle (Mount p router # ls) req s =
     (if mount_matches p (url req)
      then (case router (http_method req) (drop (length p) (url req)) s of
              Some (r, s') \<Rightarrow> (Responded r, s')
            | None \<Rightarrow> handle ls req s)
      else handle ls req s)"

fun mount_paths :: "('r, 's) layer list \<Rightarrow> string list list" where
  "mount_paths [] = []"
| "mount_paths (Use mw # ls) = mount_paths ls"
| "mount_paths (Mount p router # ls) = p # mount_paths ls"

definition http_status :: "'d response http_result \<Rightarrow> nat" where
  "http_status r = (case r of NotFound \<Rightarrow> 404 | Responded x \<Rightarrow> status x)"

definition app ::
  "(string \<rightharpoonup> string) \<Rightarrow> 'r middleware \<Rightarrow> 'r middleware \<Rightarrow> ('r, 's) router \<Rightarrow> ('r, 's) router
     \<Rightarrow> ('r, 's) layer list" where
  "app env express_json cors todosRouter testingRouter =
     [Use express_json, Use cors, Mount [''api'', ''todos''] todosRouter]
     @ (if env ''NODE_ENV'' = Some ''test''
        then [Mount [''api'', ''test''] testingRouter] else [])"

section \<open>Sample data\<close>

text \<open>A collection holding one Item, whose identifier the path token
  \<^verbatim>\<open>00000000000000000000000a\<close> denotes.\<close>

definition sample_collection :: collection where
  "sample_collection =
     \<lparr>docs = [\<lparr>todo_id = 10, title = ''Walk cat'', completed = False\<rparr>], next_id = 11\<rparr>"

text \<open>
  Routers and middleware to run the application on: a router with the one route of the
  test reset handler, POST \<^verbatim>\<open>/deleteAll\<close>, which erases the collection and answers 200; a
  router with no route; a middleware that hands every request on; and the CORS middleware
  as \<^verbatim>\<open>cors()\<close> sets it up, with no options, which ends every OPTIONS request itself with
  204 and no body and hands every other request on.
\<close>

definition reset_router :: "(todo response, collection) router" where
  "reset_router m p c =
     (if m = ''POST'' \<and> map (map lower_char) p = [''deleteall'']
      then Some (\<lparr>status = 200, body = Item None\<rparr>, c\<lparr>docs := []\<rparr>) else None)"

definition no_routes :: "(todo response, collection) router" where
  "no_routes m p c = None"

definition pass_on :: "todo response middleware" where
  "pass_on req = None"

definition cors_default :: "todo response middleware" where
  "cors_default req =
     (if http_method req = ''OPTIONS'' then Some \<lparr>status = 204, body = NoContent\<rparr> else None)"

section \<open>The spec-modelled store\<close>

lemma Todo_ops [simp]:
  "find_op Todo = Todo_find" "save_op Todo = Todo_save"
  "findByIdAndUpdate_op Todo = Todo_findByIdAndUpdate"
  by (simp_all add: Todo_def)

lemma objectId_of_samples:
  "objectId_of ''00000000000000000000000a'' = Some 10"
  "objectId_of ''00000000000000000000000b'' = Some 11"
  by code_simp+

lemma wf_sample: "wf_collection sample_collection"
  by (simp add: wf_collection_def sample_collection_def)

lemma sample_fields:
  "docs sample_collection = [\<lparr>todo_id = 10, title = ''Walk cat'', completed = False\<rparr>]"
  "next_id sample_collection = 11"
  by (simp_all add: sample_collection_def)

lemma sample_member:
  "\<lparr>todo_id = 10, title = ''Walk cat'', completed = False\<rparr> \<in> set (docs sample_collection)"
  by (simp add: sample_collection_def)

lemma sample_replace:
  "sample_collection\<lparr>docs := replace_doc \<lparr>todo_id = 10, title = ''Walk cat'', completed = False\<rparr> d'
       (docs sample_collection)\<rparr>
     = \<lparr>docs = [d'], next_id = 11\<rparr>"
  by (simp add: sample_collection_def replace_doc_def)

lemma cast_id_valid: "objectId_of tid = Some oid \<Longrightarrow> cast_id tid = Some oid"
  by (simp add: cast_id_def)

lemma Todo_findByIdAndUpdate_cast_error:
  "cast_id tid = None \<Longrightarrow> Todo_findByIdAndUpdate tid upd new c = (Inl CastError, c)"
  by (simp add: Todo_findByIdAndUpdate_def)

lemma Todo_save_empty_title:
  "doc ''title'' = Some (JStr '''') \<Longrightarrow> Todo_save doc c = (Inl ValidationError, c)"
  by (simp add: Todo_save_def)

lemma Todo_save_valid:
  "doc ''title'' = Some (JStr t) \<Longrightarrow> t \<noteq> [] \<Longrightarrow> doc ''completed'' = None \<Longrightarrow>
     Todo_save doc c
       = (Inr \<lparr>todo_id = next_id c, title = t, completed = False\<rparr>,
          \<lparr>docs = docs c @ [\<lparr>todo_id = next_id c, title = t, completed = False\<rparr>],
           next_id = Suc (next_id c)\<rparr>)"
  by (simp add: Todo_save_def insert_doc_def Let_def)

lemma wf_collection_insert:
  "wf_collection c \<Longrightarrow>
     wf_collection \<lparr>docs = docs c @ [\<lparr>todo_id = next_id c, title = t, completed = b\<rparr>],
                    next_id = Suc (next_id c)\<rparr>"
  by (auto simp add: wf_collection_def less_Suc_eq)

lemma wf_collection_fresh:
  "wf_collection c \<Longrightarrow> next_id c \<notin> todo_id ` set (docs c)"
  by (auto simp add: wf_collection_def)

lemma update_first_absent:
  "oid \<notin> todo_id ` set ds \<Longrightarrow> update_first oid f ds = (None, ds)"
  by (induction ds) auto

lemma replace_doc_absent:
  "todo_id d \<notin> todo_id ` set ds \<Longrightarrow> replace_doc d d' ds = ds"
  by (induction ds) (auto simp add: replace_doc_def)

lemma update_first_found:
  "d \<in> set ds \<Longrightarrow> distinct (map todo_id ds) \<Longrightarrow>
     update_first (todo_id d) f ds = (Some (d, f d), replace_doc d (f d) ds)"
proof (induction ds)
  case Nil
  then show ?case by simp
next
  case (Cons a ds)
  show ?case
  proof (cases "a = d")
    case True
    with Cons.prems have "todo_id d \<notin> todo_id ` set ds" by auto
    then have "replace_doc d (f d) ds = ds" by (rule replace_doc_absent)
    with True show ?thesis by (simp add: replace_doc_def)
  next
    case False
    with Cons.prems have m: "d \<in> set ds" and ne: "todo_id a \<noteq> todo_id d"
      by auto
    from Cons.prems have "distinct (map todo_id ds)" by simp
    with m have "update_first (todo_id d) f ds = (Some (d, f d), replace_doc d (f d) ds)"
      by (rule Cons.IH)
    with ne show ?thesis by (simp add: replace_doc_def)
  qed
qed

lemma Todo_update_found:
  assumes "wf_collection c" and "d \<in> set (docs c)" and "objectId_of tid = Some (todo_id d)"
    and "cast_update upd = Some u"
  shows "Todo_findByIdAndUpdate tid upd True c
           = (Inr (Some (merge_fields u d)), c\<lparr>docs := replace_doc d (merge_fields u d) (docs c)\<rparr>)"
proof -
  from assms(1) have "distinct (map todo_id (docs c))"
    by (simp add: wf_collection_def)
  with assms(2) have "update_first (todo_id d) (merge_fields u) (docs c)
      = (Some (d, merge_fields u d), replace_doc d (merge_fields u d) (docs c))"
    by (rule update_first_found)
  with assms(3,4) show ?thesis
    by (simp add: Todo_findByIdAndUpdate_def cast_id_valid)
qed

lemma cast_completed_only:
  "cast_update [''completed'' \<mapsto> JBool b] = Some (None, Some b)"
  by (simp add: cast_update_def)

lemma cast_title_only:
  "cast_update [''title'' \<mapsto> JStr t] = Some (Some t, None)"
  by (simp add: cast_update_def)

lemma invalid_completed_only:
  "invalid_request [''completed'' \<mapsto> JBool b] \<longleftrightarrow> \<not> b"
  by (simp add: invalid_request_def)

lemma invalid_title_only:
  "invalid_request [''title'' \<mapsto> JStr t] \<longleftrightarrow> t = []"
  by (auto simp add: invalid_request_def)

section \<open>The update handler: pre-validation\<close>

lemma editTodo_invalid:
  "invalid_request (req_body req) \<Longrightarrow>
     editTodo M req s = \<lparr>reply = invalid_request_reply, calls = [], state = s\<rparr>"
  by (simp add: editTodo_def invalid_request_def invalid_request_reply_def Let_def)

lemma editTodo_valid:
  "\<not> invalid_request (req_body req) \<Longrightarrow>
     editTodo M req s =
       (case findByIdAndUpdate_op M (params_id req) (req_body req) True s of
          (Inr editedTodo, s') \<Rightarrow>
             \<lparr>reply = \<lparr>status = 200, body = Item editedTodo\<rparr>,
              calls = [FindByIdAndUpdate (params_id req) (req_body req) True], state = s'\<rparr>
        | (Inl error, s') \<Rightarrow>
             \<lparr>reply = internal_server_error,
              calls = [FindByIdAndUpdate (params_id req) (req_body req) True], state = s'\<rparr>)"
  by (auto simp add: editTodo_def invalid_request_def Let_def)

lemma editTodo_valid_calls:
  "\<not> invalid_request (req_body req) \<Longrightarrow>
     calls (editTodo M req s) = [FindByIdAndUpdate (params_id req) (req_body req) True]"
  by (simp add: editTodo_valid split: prod.splits sum.splits)

lemma editTodo_valid_state:
  "\<not> invalid_request (req_body req) \<Longrightarrow>
     state (editTodo M req s) = snd (findByIdAndUpdate_op M (params_id req) (req_body req) True s)"
  by (simp add: editTodo_valid split: prod.splits sum.splits)

lemma editTodo_valid_raises:
  "\<not> invalid_request (req_body req) \<Longrightarrow>
   fst (findByIdAndUpdate_op M (params_id req) (req_body req) True s) = Inl e \<Longrightarrow>
     reply (editTodo M req s) = internal_server_error"
  by (cases "findByIdAndUpdate_op M (params_id req) (req_body req) True s")
     (simp add: editTodo_valid)

lemma editTodo_valid_resolves:
  "\<not> invalid_request (req_body req) \<Longrightarrow>
   fst (findByIdAndUpdate_op M (params_id req) (req_body req) True s) = Inr r \<Longrightarrow>
     reply (editTodo M req s) = \<lparr>status = 200, body = Item r\<rparr>"
  by (cases "findByIdAndUpdate_op M (params_id req) (req_body req) True s")
     (simp add: editTodo_valid)

text \<open>
  The handler rejects exactly the payloads of its literal condition, and every payload the
  specification's reading rejects is among them; the converse fails, see C1.
\<close>

lemma editTodo_rejects_iff:
  "reply (editTodo M req s) = invalid_request_reply \<longleftrightarrow> invalid_request (req_body req)"
proof (cases "invalid_request (req_body req)")
  case True
  then show ?thesis by (simp add: editTodo_invalid)
next
  case False
  then show ?thesis
    by (auto simp add: editTodo_valid invalid_request_reply_def internal_server_error_def
          split: prod.splits sum.splits)
qed

lemma invalid_request_spec_rejected:
  "invalid_request_spec newValue \<Longrightarrow> invalid_request newValue"
  by (auto simp add: invalid_request_spec_def invalid_request_def supplies_def)

text \<open>
  C1. The claim: the update handler answers 400 \<^verbatim>\<open>{error: "Invalid request"}\<close> without
  calling the store exactly when the payload supplies neither \<open>title\<close> nor \<open>completed\<close>, or
  \<open>title\<close> is the empty string. The handler tests the two fields for truthiness, not for
  presence: the payload \<^verbatim>\<open>{completed: false}\<close> supplies \<open>completed\<close> and has no empty
  title, so the claim lets it pass, and yet the handler answers 400 and never reaches the
  store, whatever the store and the identifier.
\<close>

theorem editTodo_rejects_completed_false:
  "editTodo M \<lparr>params_id = tid, req_body = [''completed'' \<mapsto> JBool False]\<rparr> s
     = \<lparr>reply = \<lparr>status = 400, body = ErrorBody ''Invalid request''\<rparr>, calls = [], state = s\<rparr>
   \<and> supplies [''completed'' \<mapsto> JBool False] ''completed''
   \<and> [''completed'' \<mapsto> JBool False] ''title'' \<noteq> Some (JStr '''')
   \<and> \<not> invalid_request_spec [''completed'' \<mapsto> JBool False]"
  by (simp add: editTodo_def supplies_def invalid_request_spec_def)

text \<open>
  C9. Under the literal condition of the update pre-validation, a payload with no \<open>title\<close>
  key and a truthy \<open>completed\<close> passes the check and reaches the store: the handler's
  outcome is the one find-by-id-and-update decides on the path identifier and the payload,
  200 with the store's result and the collection as the store leaves it when the store
  resolves, 500 when it raises. A payload with no \<open>title\<close> key in which \<open>completed\<close> is
  present but falsy is answered with 400 \<^verbatim>\<open>{error: "Invalid request"}\<close>, no store
  operation is invoked and the collection stays as it was.
\<close>

theorem editTodo_literal_condition:
  "(req_body req ''title'' = None \<and> truthy (req_body req ''completed'') \<longrightarrow>
      editTodo M req s =
        (case findByIdAndUpdate_op M (params_id req) (req_body req) True s of
           (Inr editedTodo, s') \<Rightarrow>
             \<lparr>reply = \<lparr>status = 200, body = Item editedTodo\<rparr>,
              calls = [FindByIdAndUpdate (params_id req) (req_body req) True], state = s'\<rparr>
         | (Inl error, s') \<Rightarrow>
             \<lparr>reply = \<lparr>status = 500, body = ErrorBody ''Internal server error''\<rparr>,
              calls = [FindByIdAndUpdate (params_id req) (req_body req) True], state = s'\<rparr>))
   \<and> (req_body req ''title'' = None \<and> supplies (req_body req) ''completed''
        \<and> \<not> truthy (req_body req ''completed'') \<longrightarrow>
      editTodo M req s
        = \<lparr>reply = \<lparr>status = 400, body = ErrorBody ''Invalid request''\<rparr>,
           calls = [], state = s\<rparr>)"
proof (intro conjI impI)
  assume "req_body req ''title'' = None \<and> truthy (req_body req ''completed'')"
  then have "\<not> invalid_request (req_body req)"
    by (simp add: invalid_request_def)
  then show "editTodo M req s =
        (case findByIdAndUpdate_op M (params_id req) (req_body req) True s of
           (Inr editedTodo, s') \<Rightarrow>
             \<lparr>reply = \<lparr>status = 200, body = Item editedTodo\<rparr>,
              calls = [FindByIdAndUpdate (params_id req) (req_body req) True], state = s'\<rparr>
         | (Inl error, s') \<Rightarrow>
             \<lparr>reply = \<lparr>status = 500, body = ErrorBody ''Internal server error''\<rparr>,
              calls = [FindByIdAndUpdate (params_id req) (req_body req) True], state = s'\<rparr>)"
    by (simp add: editTodo_valid internal_server_error_def split: prod.splits sum.splits)
next
  assume "req_body req ''title'' = None \<and> supplies (req_body req) ''completed''
        \<and> \<not> truthy (req_body req ''completed'')"
  then have "invalid_request (req_body req)"
    by (simp add: invalid_request_def)
  then show "editTodo M req s
        = \<lparr>reply = \<lparr>status = 400, body = ErrorBody ''Invalid request''\<rparr>,
           calls = [], state = s\<rparr>"
    by (simp add: editTodo_invalid invalid_request_reply_def)
qed

theorem editTodo_literal_condition_witness:
  "truthy ([''completed'' \<mapsto> JBool True] ''completed'')
   \<and> editTodo Todo \<lparr>params_id = ''00000000000000000000000a'',
            req_body = [''completed'' \<mapsto> JBool True]\<rparr> sample_collection
       = \<lparr>reply = \<lparr>status = 200,
             body = Item (Some \<lparr>todo_id = 10, title = ''Walk cat'', completed = True\<rparr>)\<rparr>,
          calls = [FindByIdAndUpdate ''00000000000000000000000a''
                     [''completed'' \<mapsto> JBool True] True],
          state = \<lparr>docs = [\<lparr>todo_id = 10, title = ''Walk cat'', completed = True\<rparr>],
                   next_id = 11\<rparr>\<rparr>
   \<and> supplies [''completed'' \<mapsto> JBool False] ''completed''
   \<and> editTodo Todo \<lparr>params_id = ''00000000000000000000000a'',
            req_body = [''completed'' \<mapsto> JBool False]\<rparr> sample_collection
       = \<lparr>reply = \<lparr>status = 400, body = ErrorBody ''Invalid request''\<rparr>,
          calls = [], state = sample_collection\<rparr>
   \<and> supplies [''completed'' \<mapsto> JStr ''''] ''completed''
   \<and> editTodo Todo \<lparr>params_id = ''00000000000000000000000a'',
            req_body = [''completed'' \<mapsto> JStr '''']\<rparr> sample_collection
       = \<lparr>reply = \<lparr>status = 400, body = ErrorBody ''Invalid request''\<rparr>,
          calls = [], state = sample_collection\<rparr>"
proof -
  have i: "objectId_of ''00000000000000000000000a''
      = Some (todo_id \<lparr>todo_id = 10, title = ''Walk cat'', completed = False\<rparr>)"
    by (simp add: objectId_of_samples)
  have u: "Todo_findByIdAndUpdate ''00000000000000000000000a'' [''completed'' \<mapsto> JBool True] True
        sample_collection
      = (Inr (Some \<lparr>todo_id = 10, title = ''Walk cat'', completed = True\<rparr>),
         \<lparr>docs = [\<lparr>todo_id = 10, title = ''Walk cat'', completed = True\<rparr>], next_id = 11\<rparr>)"
    using Todo_update_found [OF wf_sample sample_member i cast_completed_only, of True]
    by (simp add: merge_fields_def sample_replace)
  have t: "req_body \<lparr>params_id = ''00000000000000000000000a'',
            req_body = [''completed'' \<mapsto> JBool True]\<rparr> ''title'' = None
      \<and> truthy (req_body \<lparr>params_id = ''00000000000000000000000a'',
            req_body = [''completed'' \<mapsto> JBool True]\<rparr> ''completed'')"
    by simp
  have f: "req_body \<lparr>params_id = ''00000000000000000000000a'',
            req_body = [''completed'' \<mapsto> JBool False]\<rparr> ''title'' = None
      \<and> supplies (req_body \<lparr>params_id = ''00000000000000000000000a'',
            req_body = [''completed'' \<mapsto> JBool False]\<rparr>) ''completed''
      \<and> \<not> truthy (req_body \<lparr>params_id = ''00000000000000000000000a'',
            req_body = [''completed'' \<mapsto> JBool False]\<rparr> ''completed'')"
    by (simp add: supplies_def)
  have e: "req_body \<lparr>params_id = ''00000000000000000000000a'',
            req_body = [''completed'' \<mapsto> JStr '''']\<rparr> ''title'' = None
      \<and> supplies (req_body \<lparr>params_id = ''00000000000000000000000a'',
            req_body = [''completed'' \<mapsto> JStr '''']\<rparr>) ''completed''
      \<and> \<not> truthy (req_body \<lparr>params_id = ''00000000000000000000000a'',
            req_body = [''completed'' \<mapsto> JStr '''']\<rparr> ''completed'')"
    by (simp add: supplies_def)
  from editTodo_literal_condition [of _ Todo sample_collection, THEN conjunct1, THEN mp, OF t]
    editTodo_literal_condition [of _ Todo sample_collection, THEN conjunct2, THEN mp, OF f]
    editTodo_literal_condition [of _ Todo sample_collection, THEN conjunct2, THEN mp, OF e]
  show ?thesis
    by (simp add: u supplies_def)
qed

text \<open>
  C10. For every payload that passes the pre-validation, the handler hands the whole
  request body, unchanged, to the store as the update document: the one store call is
  find-by-id-and-update with the path identifier and the body itself, so no field of the
  payload is filtered out, renamed or rejected by the handler, and the collection is left
  as that call leaves it.
\<close>

theorem editTodo_forwards_body:
  "\<not> invalid_request (req_body req) \<Longrightarrow>
     calls (editTodo M req s) = [FindByIdAndUpdate (params_id req) (req_body req) True]
     \<and> state (editTodo M req s)
         = snd (findByIdAndUpdate_op M (params_id req) (req_body req) True s)"
  by (simp add: editTodo_valid_calls editTodo_valid_state)

theorem editTodo_forwards_body_witness:
  "\<not> invalid_request [''completed'' \<mapsto> JBool True, ''priority'' \<mapsto> JNum 5]
   \<and> calls (editTodo Todo \<lparr>params_id = ''00000000000000000000000a'',
        req_body = [''completed'' \<mapsto> JBool True, ''priority'' \<mapsto> JNum 5]\<rparr> sample_collection)
     = [FindByIdAndUpdate ''00000000000000000000000a''
          [''completed'' \<mapsto> JBool True, ''priority'' \<mapsto> JNum 5] True]"
  using editTodo_forwards_body [of "\<lparr>params_id = ''00000000000000000000000a'',
        req_body = [''completed'' \<mapsto> JBool True, ''priority'' \<mapsto> JNum 5]\<rparr>" Todo sample_collection]
  by (simp add: invalid_request_def)

section \<open>The update handler: identifiers and store results\<close>

text \<open>
  C2. The claim: an update or delete request whose path identifier is not a syntactically
  valid store identifier is answered with 400 \<^verbatim>\<open>{error: "Invalid Id"}\<close> and no store
  operation is invoked. It fails on the update handler: PATCH \<^verbatim>\<open>/api/todos/123\<close> with
  \<^verbatim>\<open>{title: "Walk dog"}\<close> passes the pre-validation, the identifier \<^verbatim>\<open>123\<close> is not a
  valid store identifier, and the handler calls find-by-id-and-update with it; the store
  raises and the answer is 500 \<^verbatim>\<open>{error: "Internal server error"}\<close>.
\<close>

theorem editTodo_malformed_id_counterexample:
  "objectId_of ''123'' = None
   \<and> \<not> invalid_request [''title'' \<mapsto> JStr ''Walk dog'']
   \<and> editTodo Todo \<lparr>params_id = ''123'', req_body = [''title'' \<mapsto> JStr ''Walk dog'']\<rparr>
        sample_collection
      = \<lparr>reply = \<lparr>status = 500, body = ErrorBody ''Internal server error''\<rparr>,
         calls = [FindByIdAndUpdate ''123'' [''title'' \<mapsto> JStr ''Walk dog''] True],
         state = sample_collection\<rparr>
   \<and> reply (editTodo Todo \<lparr>params_id = ''123'', req_body = [''title'' \<mapsto> JStr ''Walk dog'']\<rparr>
        sample_collection) \<noteq> \<lparr>status = 400, body = ErrorBody ''Invalid Id''\<rparr>
   \<and> calls (editTodo Todo \<lparr>params_id = ''123'', req_body = [''title'' \<mapsto> JStr ''Walk dog'']\<rparr>
        sample_collection) \<noteq> []"
  by (simp add: editTodo_def objectId_of_def cast_id_def Todo_def Todo_findByIdAndUpdate_def
        internal_server_error_def invalid_request_def)

text \<open>
  C2, as amended. For every update request whose payload passes the pre-validation,
  whatever its path identifier, the handler checks no identifier itself: it invokes
  find-by-id-and-update once with the identifier as it came and leaves the collection as
  that call leaves it; and when the store raises on the identifier, as the reference
  store does on \<^verbatim>\<open>123\<close>, the answer is 500 \<^verbatim>\<open>{error: "Internal server error"}\<close>.
\<close>

theorem editTodo_identifier_unchecked:
  "(\<not> invalid_request (req_body req) \<longrightarrow>
      calls (editTodo M req s) = [FindByIdAndUpdate (params_id req) (req_body req) True]
      \<and> state (editTodo M req s)
          = snd (findByIdAndUpdate_op M (params_id req) (req_body req) True s))
   \<and> (\<not> invalid_request (req_body req)
        \<and> findByIdAndUpdate_op M (params_id req) (req_body req) True s = (Inl e, s') \<longrightarrow>
      editTodo M req s
        = \<lparr>reply = \<lparr>status = 500, body = ErrorBody ''Internal server error''\<rparr>,
           calls = [FindByIdAndUpdate (params_id req) (req_body req) True], state = s'\<rparr>)"
proof (intro conjI impI)
  assume v: "\<not> invalid_request (req_body req)"
  then show "calls (editTodo M req s) = [FindByIdAndUpdate (params_id req) (req_body req) True]"
    by (rule editTodo_valid_calls)
  from v show "state (editTodo M req s)
          = snd (findByIdAndUpdate_op M (params_id req) (req_body req) True s)"
    by (rule editTodo_valid_state)
next
  assume "\<not> invalid_request (req_body req)
        \<and> findByIdAndUpdate_op M (params_id req) (req_body req) True s = (Inl e, s')"
  then show "editTodo M req s
        = \<lparr>reply = \<lparr>status = 500, body = ErrorBody ''Internal server error''\<rparr>,
           calls = [FindByIdAndUpdate (params_id req) (req_body req) True], state = s'\<rparr>"
    by (simp add: editTodo_valid internal_server_error_def)
qed

theorem editTodo_identifier_unchecked_witness:
  "\<not> invalid_request [''completed'' \<mapsto> JBool True]
   \<and> objectId_of ''123'' = None
   \<and> findByIdAndUpdate_op Todo ''123'' [''completed'' \<mapsto> JBool True] True sample_collection
      = (Inl CastError, sample_collection)
   \<and> calls (editTodo Todo \<lparr>params_id = ''123'',
        req_body = [''completed'' \<mapsto> JBool True]\<rparr> sample_collection)
      = [FindByIdAndUpdate ''123'' [''completed'' \<mapsto> JBool True] True]
   \<and> editTodo Todo \<lparr>params_id = ''123'',
        req_body = [''completed'' \<mapsto> JBool True]\<rparr> sample_collection
      = \<lparr>reply = \<lparr>status = 500, body = ErrorBody ''Internal server error''\<rparr>,
         calls = [FindByIdAndUpdate ''123'' [''completed'' \<mapsto> JBool True] True],
         state = sample_collection\<rparr>"
proof -
  have v: "\<not> invalid_request (req_body \<lparr>params_id = ''123'',
        req_body = [''completed'' \<mapsto> JBool True]\<rparr>)"
    by (simp add: invalid_request_def)
  have c: "cast_id ''123'' = None"
    by (simp add: cast_id_def objectId_of_def)
  have r: "findByIdAndUpdate_op Todo (params_id \<lparr>params_id = ''123'',
        req_body = [''completed'' \<mapsto> JBool True]\<rparr>) (req_body \<lparr>params_id = ''123'',
        req_body = [''completed'' \<mapsto> JBool True]\<rparr>) True sample_collection
      = (Inl CastError, sample_collection)"
    by (simp add: Todo_findByIdAndUpdate_cast_error c)
  from editTodo_identifier_unchecked [of _ Todo sample_collection, THEN conjunct1, THEN mp, OF v]
    editTodo_identifier_unchecked [of _ Todo sample_collection, THEN conjunct2, THEN mp,
      OF conjI [OF v r]] v r
  show ?thesis
    by (simp add: objectId_of_def)
qed

text \<open>
  C4. The claim: every PATCH request whose payload passes the pre-validation and whose
  identifier is syntactically valid but matches no stored Item is answered with 200 and
  a null body. It fails for a payload the store cannot cast: \<^verbatim>\<open>{completed: []}\<close> passes
  the pre-validation, an array being truthy, the identifier is valid and matches no Item,
  and yet the store raises on the payload and the answer is 500.
\<close>

theorem editTodo_uncastable_payload_counterexample:
  "\<not> invalid_request [''completed'' \<mapsto> JArr []]
   \<and> objectId_of ''00000000000000000000000b'' = Some 11
   \<and> 11 \<notin> todo_id ` set (docs sample_collection)
   \<and> editTodo Todo \<lparr>params_id = ''00000000000000000000000b'',
        req_body = [''completed'' \<mapsto> JArr []]\<rparr> sample_collection
      = \<lparr>reply = \<lparr>status = 500, body = ErrorBody ''Internal server error''\<rparr>,
         calls = [FindByIdAndUpdate ''00000000000000000000000b'' [''completed'' \<mapsto> JArr []] True],
         state = sample_collection\<rparr>
   \<and> reply (editTodo Todo \<lparr>params_id = ''00000000000000000000000b'',
        req_body = [''completed'' \<mapsto> JArr []]\<rparr> sample_collection)
      \<noteq> \<lparr>status = 200, body = Item None\<rparr>"
proof -
  have v: "\<not> invalid_request [''completed'' \<mapsto> JArr []]"
    by (simp add: invalid_request_def)
  have f: "Todo_findByIdAndUpdate ''00000000000000000000000b'' [''completed'' \<mapsto> JArr []] True
        sample_collection = (Inl CastError, sample_collection)"
    by (simp add: Todo_findByIdAndUpdate_def cast_id_valid objectId_of_samples cast_update_def)
  have r: "editTodo Todo \<lparr>params_id = ''00000000000000000000000b'',
        req_body = [''completed'' \<mapsto> JArr []]\<rparr> sample_collection
      = \<lparr>reply = \<lparr>status = 500, body = ErrorBody ''Internal server error''\<rparr>,
         calls = [FindByIdAndUpdate ''00000000000000000000000b'' [''completed'' \<mapsto> JArr []] True],
         state = sample_collection\<rparr>"
    using v by (simp add: editTodo_valid f internal_server_error_def)
  show ?thesis
    by (simp add: v r objectId_of_samples sample_fields)
qed

text \<open>
  C4, as amended. For every PATCH request whose payload passes the pre-validation, when
  the store's update result is null the handler answers 200 with a null body, neither 404
  nor 500. With the store of the specification that is the case whenever the identifier
  is syntactically valid but matches no stored Item and the fields the payload supplies
  have the types of the schema, and the collection is left as it was.
\<close>

theorem editTodo_null_result:
  "(\<not> invalid_request (req_body req)
      \<and> findByIdAndUpdate_op M (params_id req) (req_body req) True s = (Inr None, s') \<longrightarrow>
     editTodo M req s
       = \<lparr>reply = \<lparr>status = 200, body = Item None\<rparr>,
          calls = [FindByIdAndUpdate (params_id req) (req_body req) True], state = s'\<rparr>)
   \<and> (\<not> invalid_request (req_body req) \<and> objectId_of (params_id req) = Some oid
      \<and> oid \<notin> todo_id ` set (docs c) \<and> cast_update (req_body req) = Some u \<longrightarrow>
     editTodo Todo req c
       = \<lparr>reply = \<lparr>status = 200, body = Item None\<rparr>,
          calls = [FindByIdAndUpdate (params_id req) (req_body req) True], state = c\<rparr>)"
proof (intro conjI impI)
  assume "\<not> invalid_request (req_body req)
      \<and> findByIdAndUpdate_op M (params_id req) (req_body req) True s = (Inr None, s')"
  then show "editTodo M req s
       = \<lparr>reply = \<lparr>status = 200, body = Item None\<rparr>,
          calls = [FindByIdAndUpdate (params_id req) (req_body req) True], state = s'\<rparr>"
    by (simp add: editTodo_valid)
next
  assume a: "\<not> invalid_request (req_body req) \<and> objectId_of (params_id req) = Some oid
      \<and> oid \<notin> todo_id ` set (docs c) \<and> cast_update (req_body req) = Some u"
  then have "update_first oid (merge_fields u) (docs c) = (None, docs c)"
    by (simp add: update_first_absent)
  with a have "Todo_findByIdAndUpdate (params_id req) (req_body req) True c = (Inr None, c)"
    by (simp add: Todo_findByIdAndUpdate_def cast_id_valid)
  with a show "editTodo Todo req c
       = \<lparr>reply = \<lparr>status = 200, body = Item None\<rparr>,
          calls = [FindByIdAndUpdate (params_id req) (req_body req) True], state = c\<rparr>"
    by (simp add: editTodo_valid)
qed

theorem editTodo_null_result_witness:
  "\<not> invalid_request [''completed'' \<mapsto> JBool True]
   \<and> objectId_of ''00000000000000000000000b'' = Some 11
   \<and> 11 \<notin> todo_id ` set (docs sample_collection)
   \<and> cast_update [''completed'' \<mapsto> JBool True] = Some (None, Some True)
   \<and> findByIdAndUpdate_op Todo ''00000000000000000000000b'' [''completed'' \<mapsto> JBool True] True
        sample_collection = (Inr None, sample_collection)
   \<and> editTodo Todo \<lparr>params_id = ''00000000000000000000000b'',
        req_body = [''completed'' \<mapsto> JBool True]\<rparr> sample_collection
      = \<lparr>reply = \<lparr>status = 200, body = Item None\<rparr>,
         calls = [FindByIdAndUpdate ''00000000000000000000000b'' [''completed'' \<mapsto> JBool True] True],
         state = sample_collection\<rparr>"
proof -
  have v: "\<not> invalid_request [''completed'' \<mapsto> JBool True]"
    by (simp add: invalid_request_def)
  have f: "findByIdAndUpdate_op Todo ''00000000000000000000000b'' [''completed'' \<mapsto> JBool True] True
        sample_collection = (Inr None, sample_collection)"
    by (simp add: Todo_findByIdAndUpdate_def cast_id_valid objectId_of_samples cast_update_def
          sample_collection_def)
  have m: "11 \<notin> todo_id ` set (docs sample_collection)"
    by (simp add: sample_fields)
  note r = editTodo_null_result [of "\<lparr>params_id = ''00000000000000000000000b'',
        req_body = [''completed'' \<mapsto> JBool True]\<rparr>" Todo sample_collection sample_collection
        11 sample_collection "(None, Some True)"]
  from v f m r [THEN conjunct1] r [THEN conjunct2]
  show ?thesis
    by (simp add: objectId_of_samples cast_completed_only)
qed

section \<open>The create and list handlers\<close>

lemma addTodo_raises:
  "fst (save_op M (req_body req) s) = Inl e \<Longrightarrow> reply (addTodo M req s) = internal_server_error"
  by (cases "save_op M (req_body req) s") (simp add: addTodo_def)

lemma addTodo_resolves:
  "save_op M (req_body req) s = (Inr d, s') \<Longrightarrow>
     addTodo M req s = \<lparr>reply = \<lparr>status = 201, body = Item (Some d)\<rparr>,
                        calls = [Save (req_body req)], state = s'\<rparr>"
  by (simp add: addTodo_def)

text \<open>
  C3. For every create request on which the store operation raises, whatever the error,
  the answer is 500 \<^verbatim>\<open>{error: "Internal server error"}\<close>; in particular creating
  \<^verbatim>\<open>{title: ""}\<close>, which the schema rejects, is answered with that 500 and not with a 400,
  and the collection is left as it was.
\<close>

theorem addTodo_store_error:
  "(fst (save_op M (req_body req) s) = Inl e \<longrightarrow>
      reply (addTodo M req s) = \<lparr>status = 500, body = ErrorBody ''Internal server error''\<rparr>)
   \<and> addTodo Todo \<lparr>params_id = tid, req_body = [''title'' \<mapsto> JStr '''']\<rparr> c
      = \<lparr>reply = \<lparr>status = 500, body = ErrorBody ''Internal server error''\<rparr>,
         calls = [Save [''title'' \<mapsto> JStr '''']], state = c\<rparr>
   \<and> status (reply (addTodo Todo \<lparr>params_id = tid, req_body = [''title'' \<mapsto> JStr '''']\<rparr> c))
      \<noteq> 400"
proof (intro conjI impI)
  assume "fst (save_op M (req_body req) s) = Inl e"
  then show "reply (addTodo M req s) = \<lparr>status = 500, body = ErrorBody ''Internal server error''\<rparr>"
    using addTodo_raises [of M req s e] by (simp add: internal_server_error_def)
next
  show r: "addTodo Todo \<lparr>params_id = tid, req_body = [''title'' \<mapsto> JStr '''']\<rparr> c
      = \<lparr>reply = \<lparr>status = 500, body = ErrorBody ''Internal server error''\<rparr>,
         calls = [Save [''title'' \<mapsto> JStr '''']], state = c\<rparr>"
    by (simp add: addTodo_def Todo_save_empty_title internal_server_error_def)
  show "status (reply (addTodo Todo \<lparr>params_id = tid, req_body = [''title'' \<mapsto> JStr '''']\<rparr> c))
      \<noteq> 400"
    by (simp add: r)
qed

theorem addTodo_store_error_witness:
  "fst (save_op (mock_save_throws Todo) [''title'' \<mapsto> JStr ''do something''] sample_collection)
     = Inl StoreFailure
   \<and> reply (addTodo (mock_save_throws Todo)
        \<lparr>params_id = [], req_body = [''title'' \<mapsto> JStr ''do something'']\<rparr> sample_collection)
      = \<lparr>status = 500, body = ErrorBody ''Internal server error''\<rparr>"
  using addTodo_store_error [of "mock_save_throws Todo"
      "\<lparr>params_id = [], req_body = [''title'' \<mapsto> JStr ''do something'']\<rparr>"
      sample_collection StoreFailure]
  by (simp add: mock_save_throws_def)

text \<open>
  C6. For every create request with a non-empty \<open>title\<close> and no \<open>completed\<close>, the store
  succeeds and the answer is 201 with the persisted Item: its \<open>title\<close> is the supplied
  one, its \<open>completed\<close> is false, and its identifier is the one the store generated, which
  no Item of a well-formed collection had; the Item is appended to the collection, which
  stays well-formed. Whenever a store resolves the insert with an Item, the answer is 201
  with that Item.
\<close>

theorem addTodo_creates_item:
  assumes "req_body req ''title'' = Some (JStr t)" and "t \<noteq> []"
    and "req_body req ''completed'' = None"
  shows "addTodo Todo req c
           = \<lparr>reply = \<lparr>status = 201,
                 body = Item (Some \<lparr>todo_id = next_id c, title = t, completed = False\<rparr>)\<rparr>,
              calls = [Save (req_body req)],
              state = \<lparr>docs = docs c @ [\<lparr>todo_id = next_id c, title = t, completed = False\<rparr>],
                       next_id = Suc (next_id c)\<rparr>\<rparr>
         \<and> (wf_collection c \<longrightarrow>
              next_id c \<notin> todo_id ` set (docs c)
              \<and> wf_collection (state (addTodo Todo req c)))
         \<and> (save_op M (req_body req) s = (Inr d, s') \<longrightarrow>
              reply (addTodo M req s) = \<lparr>status = 201, body = Item (Some d)\<rparr>)"
proof -
  have r: "addTodo Todo req c
           = \<lparr>reply = \<lparr>status = 201,
                 body = Item (Some \<lparr>todo_id = next_id c, title = t, completed = False\<rparr>)\<rparr>,
              calls = [Save (req_body req)],
              state = \<lparr>docs = docs c @ [\<lparr>todo_id = next_id c, title = t, completed = False\<rparr>],
                       next_id = Suc (next_id c)\<rparr>\<rparr>"
    using Todo_save_valid [OF assms, of c] by (simp add: addTodo_resolves)
  have w: "wf_collection (state (addTodo Todo req c))" if "wf_collection c"
    using that by (simp add: r wf_collection_insert)
  have g: "reply (addTodo M req s) = \<lparr>status = 201, body = Item (Some d)\<rparr>"
    if "save_op M (req_body req) s = (Inr d, s')"
    using that by (simp add: addTodo_resolves)
  from r w g show ?thesis
    by (simp add: wf_collection_fresh)
qed

theorem addTodo_creates_item_witness:
  "[''title'' \<mapsto> JStr ''Make a cake''] ''title'' = Some (JStr ''Make a cake'')
   \<and> ''Make a cake'' \<noteq> []
   \<and> [''title'' \<mapsto> JStr ''Make a cake''] ''completed'' = None
   \<and> wf_collection sample_collection
   \<and> addTodo Todo \<lparr>params_id = [], req_body = [''title'' \<mapsto> JStr ''Make a cake'']\<rparr>
        sample_collection
      = \<lparr>reply = \<lparr>status = 201,
            body = Item (Some \<lparr>todo_id = 11, title = ''Make a cake'', completed = False\<rparr>)\<rparr>,
         calls = [Save [''title'' \<mapsto> JStr ''Make a cake'']],
         state = \<lparr>docs = [\<lparr>todo_id = 10, title = ''Walk cat'', completed = False\<rparr>,
                          \<lparr>todo_id = 11, title = ''Make a cake'', completed = False\<rparr>],
                  next_id = 12\<rparr>\<rparr>
   \<and> 11 \<notin> todo_id ` set (docs sample_collection)
   \<and> wf_collection \<lparr>docs = [\<lparr>todo_id = 10, title = ''Walk cat'', completed = False\<rparr>,
                          \<lparr>todo_id = 11, title = ''Make a cake'', completed = False\<rparr>],
                  next_id = 12\<rparr>"
proof -
  have a: "req_body \<lparr>params_id = [], req_body = [''title'' \<mapsto> JStr ''Make a cake'']\<rparr> ''title''
      = Some (JStr ''Make a cake'')"
    by simp
  have b: "''Make a cake'' \<noteq> []" by simp
  have c: "req_body \<lparr>params_id = [], req_body = [''title'' \<mapsto> JStr ''Make a cake'']\<rparr> ''completed''
      = None"
    by simp
  note r = addTodo_creates_item [OF a b c, of sample_collection]
  from r [THEN conjunct1] r [THEN conjunct2, THEN conjunct1, THEN mp, OF wf_sample]
  show ?thesis
    by (simp add: wf_sample sample_fields)
qed

text \<open>
  C7. The list operation answers 200 with the sequence the store's find-all resolves
  with, which for the store of the specification is exactly the Items currently in the
  collection, the empty sequence for the empty collection; and it answers 500
  \<^verbatim>\<open>{error: "Internal server error"}\<close> whenever find-all raises.
\<close>

theorem getAllTodos_lists_collection:
  "(fst (find_op M s) = Inr todos \<longrightarrow>
      reply (getAllTodos M req s) = \<lparr>status = 200, body = Items todos\<rparr>)
   \<and> (fst (find_op M s) = Inl e \<longrightarrow>
      reply (getAllTodos M req s) = \<lparr>status = 500, body = ErrorBody ''Internal server error''\<rparr>)
   \<and> getAllTodos Todo req c
      = \<lparr>reply = \<lparr>status = 200, body = Items (docs c)\<rparr>, calls = [Find], state = c\<rparr>
   \<and> (docs c = [] \<longrightarrow> reply (getAllTodos Todo req c) = \<lparr>status = 200, body = Items []\<rparr>)"
proof (intro conjI impI)
  assume "fst (find_op M s) = Inr todos"
  then show "reply (getAllTodos M req s) = \<lparr>status = 200, body = Items todos\<rparr>"
    by (cases "find_op M s") (simp add: getAllTodos_def)
next
  assume "fst (find_op M s) = Inl e"
  then show "reply (getAllTodos M req s) = \<lparr>status = 500, body = ErrorBody ''Internal server error''\<rparr>"
    by (cases "find_op M s") (simp add: getAllTodos_def internal_server_error_def)
next
  show r: "getAllTodos Todo req c
      = \<lparr>reply = \<lparr>status = 200, body = Items (docs c)\<rparr>, calls = [Find], state = c\<rparr>"
    by (simp add: getAllTodos_def Todo_find_def)
  assume "docs c = []"
  then show "reply (getAllTodos Todo req c) = \<lparr>status = 200, body = Items []\<rparr>"
    by (simp add: r)
qed

theorem getAllTodos_lists_collection_witness:
  "fst (find_op Todo sample_collection)
     = Inr [\<lparr>todo_id = 10, title = ''Walk cat'', completed = False\<rparr>]
   \<and> reply (getAllTodos Todo \<lparr>params_id = [], req_body = Map.empty\<rparr> sample_collection)
      = \<lparr>status = 200, body = Items [\<lparr>todo_id = 10, title = ''Walk cat'', completed = False\<rparr>]\<rparr>
   \<and> fst (find_op (mock_find_throws Todo) sample_collection) = Inl StoreFailure
   \<and> reply (getAllTodos (mock_find_throws Todo) \<lparr>params_id = [], req_body = Map.empty\<rparr>
        sample_collection)
      = \<lparr>status = 500, body = ErrorBody ''Internal server error''\<rparr>
   \<and> docs \<lparr>docs = [], next_id = 0\<rparr> = []
   \<and> reply (getAllTodos Todo \<lparr>params_id = [], req_body = Map.empty\<rparr> \<lparr>docs = [], next_id = 0\<rparr>)
      = \<lparr>status = 200, body = Items []\<rparr>"
  using getAllTodos_lists_collection [of Todo sample_collection
      "[\<lparr>todo_id = 10, title = ''Walk cat'', completed = False\<rparr>]"
      "\<lparr>params_id = [], req_body = Map.empty\<rparr>" StoreFailure "\<lparr>docs = [], next_id = 0\<rparr>"]
    getAllTodos_lists_collection [of "mock_find_throws Todo" sample_collection
      "[]" "\<lparr>params_id = [], req_body = Map.empty\<rparr>" StoreFailure "\<lparr>docs = [], next_id = 0\<rparr>"]
  by (simp add: mock_find_throws_def Todo_find_def sample_collection_def)

section \<open>Partial updates of a stored Item\<close>

text \<open>
  C5. For every Item stored in a well-formed collection and a path identifier that
  denotes it: a PATCH whose payload holds only \<open>completed\<close>, when it succeeds (200),
  answers with the Item as it is after the update, its identifier and \<open>title\<close> unchanged
  and its \<open>completed\<close> equal to the payload value, and that Item replaces the stored one;
  the payload \<^verbatim>\<open>{completed: true}\<close> does succeed. Symmetrically a PATCH whose payload holds
  only a non-empty \<open>title\<close> answers 200 with the Item carrying the new title, its
  identifier and \<open>completed\<close> unchanged.
\<close>

theorem editTodo_partial_update:
  assumes "wf_collection c" and "d \<in> set (docs c)" and "objectId_of tid = Some (todo_id d)"
  shows "(status (reply (editTodo Todo \<lparr>params_id = tid, req_body = [''completed'' \<mapsto> JBool b]\<rparr> c)) = 200
            \<longrightarrow>
          editTodo Todo \<lparr>params_id = tid, req_body = [''completed'' \<mapsto> JBool b]\<rparr> c
            = \<lparr>reply = \<lparr>status = 200, body = Item (Some (d\<lparr>completed := b\<rparr>))\<rparr>,
               calls = [FindByIdAndUpdate tid [''completed'' \<mapsto> JBool b] True],
               state = c\<lparr>docs := replace_doc d (d\<lparr>completed := b\<rparr>) (docs c)\<rparr>\<rparr>)
       \<and> editTodo Todo \<lparr>params_id = tid, req_body = [''completed'' \<mapsto> JBool True]\<rparr> c
            = \<lparr>reply = \<lparr>status = 200, body = Item (Some (d\<lparr>completed := True\<rparr>))\<rparr>,
               calls = [FindByIdAndUpdate tid [''completed'' \<mapsto> JBool True] True],
               state = c\<lparr>docs := replace_doc d (d\<lparr>completed := True\<rparr>) (docs c)\<rparr>\<rparr>
       \<and> (t \<noteq> [] \<longrightarrow>
          editTodo Todo \<lparr>params_id = tid, req_body = [''title'' \<mapsto> JStr t]\<rparr> c
            = \<lparr>reply = \<lparr>status = 200, body = Item (Some (d\<lparr>title := t\<rparr>))\<rparr>,
               calls = [FindByIdAndUpdate tid [''title'' \<mapsto> JStr t] True],
               state = c\<lparr>docs := replace_doc d (d\<lparr>title := t\<rparr>) (docs c)\<rparr>\<rparr>)"
proof -
  have on: "editTodo Todo \<lparr>params_id = tid, req_body = [''completed'' \<mapsto> JBool True]\<rparr> c
            = \<lparr>reply = \<lparr>status = 200, body = Item (Some (d\<lparr>completed := True\<rparr>))\<rparr>,
               calls = [FindByIdAndUpdate tid [''completed'' \<mapsto> JBool True] True],
               state = c\<lparr>docs := replace_doc d (d\<lparr>completed := True\<rparr>) (docs c)\<rparr>\<rparr>"
    using Todo_update_found [OF assms cast_completed_only, of True]
    by (simp add: editTodo_valid invalid_completed_only merge_fields_def)
  have off: "status (reply (editTodo Todo
      \<lparr>params_id = tid, req_body = [''completed'' \<mapsto> JBool False]\<rparr> c)) \<noteq> 200"
    by (simp add: editTodo_invalid invalid_completed_only invalid_request_reply_def)
  have ti: "editTodo Todo \<lparr>params_id = tid, req_body = [''title'' \<mapsto> JStr t]\<rparr> c
            = \<lparr>reply = \<lparr>status = 200, body = Item (Some (d\<lparr>title := t\<rparr>))\<rparr>,
               calls = [FindByIdAndUpdate tid [''title'' \<mapsto> JStr t] True],
               state = c\<lparr>docs := replace_doc d (d\<lparr>title := t\<rparr>) (docs c)\<rparr>\<rparr>" if "t \<noteq> []"
    using that Todo_update_found [OF assms cast_title_only, of t]
    by (simp add: editTodo_valid invalid_title_only merge_fields_def)
  show ?thesis
  proof (cases b)
    case True
    with on ti show ?thesis by simp
  next
    case False
    with on off ti show ?thesis by simp
  qed
qed

theorem editTodo_partial_update_witness:
  "wf_collection sample_collection
   \<and> \<lparr>todo_id = 10, title = ''Walk cat'', completed = False\<rparr> \<in> set (docs sample_collection)
   \<and> objectId_of ''00000000000000000000000a'' = Some 10
   \<and> editTodo Todo \<lparr>params_id = ''00000000000000000000000a'',
         req_body = [''completed'' \<mapsto> JBool True]\<rparr> sample_collection
      = \<lparr>reply = \<lparr>status = 200,
            body = Item (Some \<lparr>todo_id = 10, title = ''Walk cat'', completed = True\<rparr>)\<rparr>,
         calls = [FindByIdAndUpdate ''00000000000000000000000a'' [''completed'' \<mapsto> JBool True] True],
         state = \<lparr>docs = [\<lparr>todo_id = 10, title = ''Walk cat'', completed = True\<rparr>], next_id = 11\<rparr>\<rparr>
   \<and> ''Walk dog'' \<noteq> []
   \<and> editTodo Todo \<lparr>params_id = ''00000000000000000000000a'',
         req_body = [''title'' \<mapsto> JStr ''Walk dog'']\<rparr> sample_collection
      = \<lparr>reply = \<lparr>status = 200,
            body = Item (Some \<lparr>todo_id = 10, title = ''Walk dog'', completed = False\<rparr>)\<rparr>,
         calls = [FindByIdAndUpdate ''00000000000000000000000a'' [''title'' \<mapsto> JStr ''Walk dog''] True],
         state = \<lparr>docs = [\<lparr>todo_id = 10, title = ''Walk dog'', completed = False\<rparr>], next_id = 11\<rparr>\<rparr>"
proof -
  have i: "objectId_of ''00000000000000000000000a''
      = Some (todo_id \<lparr>todo_id = 10, title = ''Walk cat'', completed = False\<rparr>)"
    by (simp add: objectId_of_samples)
  note r = editTodo_partial_update [OF wf_sample sample_member i, of True "''Walk dog''"]
  have t: "''Walk dog'' \<noteq> []" by simp
  from r [THEN conjunct2, THEN conjunct1] r [THEN conjunct2, THEN conjunct2, THEN mp, OF t]
  show ?thesis
    by (simp add: wf_sample sample_member objectId_of_samples sample_replace)
qed

section \<open>The test reset route\<close>

lemma lower_segments:
  "map (map lower_char) [''api'', ''test''] = [''api'', ''test'']"
  "map (map lower_char) [''api'', ''todos''] = [''api'', ''todos'']"
  "map (map lower_char) [''API'', ''TEST'', ''deleteAll''] = [''api'', ''test'', ''deleteall'']"
  "map (map lower_char) [''api'', ''test'', ''deleteAll''] = [''api'', ''test'', ''deleteall'']"
  "map (map lower_char) [''deleteAll''] = [''deleteall'']"
  by code_simp+

lemma test_not_todos:
  "mount_matches [''api'', ''test''] p \<Longrightarrow> \<not> mount_matches [''api'', ''todos''] p"
  unfolding mount_matches_def lower_segments
  by (auto simp add: prefix_def)

lemma mount_paths_app:
  "mount_paths (app env j co tr ter)
     = (if env ''NODE_ENV'' = Some ''test''
        then [[''api'', ''todos''], [''api'', ''test'']] else [[''api'', ''todos'']])"
  by (simp add: app_def)

lemma handle_app_production:
  "env ''NODE_ENV'' \<noteq> Some ''test'' \<Longrightarrow> mount_matches [''api'', ''test''] (url req) \<Longrightarrow>
     handle (app env j co tr ter) req s
       = (case j req of Some r \<Rightarrow> (Responded r, s)
          | None \<Rightarrow> (case co req of Some r \<Rightarrow> (Responded r, s) | None \<Rightarrow> (NotFound, s)))"
  by (simp add: app_def test_not_todos split: option.splits)

lemma handle_app_test:
  "env ''NODE_ENV'' = Some ''test'' \<Longrightarrow> mount_matches [''api'', ''test''] (url req) \<Longrightarrow>
   j req = None \<Longrightarrow> co req = None \<Longrightarrow>
     handle (app env j co tr ter) req s
       = (case ter (http_method req) (drop 2 (url req)) s of
            Some (r, s') \<Rightarrow> (Responded r, s') | None \<Rightarrow> (NotFound, s))"
  by (simp add: app_def test_not_todos numeral_2_eq_2 split: option.splits)

text \<open>
  C8. The claim: the test reset route is mounted if and only if the process runs in test
  mode, and outside test mode every request to it yields 404 and can never delete items.
  The 404 fails for a request that a global middleware answers before any router is
  consulted: outside test mode the preflight \<^verbatim>\<open>OPTIONS /api/test/deleteAll\<close> is ended by
  the CORS middleware with 204, the collection untouched.
\<close>

theorem test_route_preflight_counterexample:
  "Map.empty ''NODE_ENV'' \<noteq> Some ''test''
   \<and> mount_matches [''api'', ''test''] [''api'', ''test'', ''deleteAll'']
   \<and> handle (app Map.empty pass_on cors_default no_routes reset_router)
        \<lparr>http_method = ''OPTIONS'', url = [''api'', ''test'', ''deleteAll'']\<rparr> sample_collection
      = (Responded \<lparr>status = 204, body = NoContent\<rparr>, sample_collection)
   \<and> http_status (fst (handle (app Map.empty pass_on cors_default no_routes reset_router)
        \<lparr>http_method = ''OPTIONS'', url = [''api'', ''test'', ''deleteAll'']\<rparr> sample_collection))
      \<noteq> 404"
proof -
  have m: "mount_matches [''api'', ''test''] [''api'', ''test'', ''deleteAll'']"
    by (simp add: mount_matches_def lower_segments)
  have h: "handle (app Map.empty pass_on cors_default no_routes reset_router)
        \<lparr>http_method = ''OPTIONS'', url = [''api'', ''test'', ''deleteAll'']\<rparr> sample_collection
      = (Responded \<lparr>status = 204, body = NoContent\<rparr>, sample_collection)"
    by (simp add: app_def pass_on_def cors_default_def)
  show ?thesis
    by (simp add: m h http_status_def)
qed

text \<open>
  C8, as amended. The router of the test reset route is mounted under \<^verbatim>\<open>/api/test\<close> if
  and only if \<^verbatim>\<open>NODE_ENV\<close> is \<^verbatim>\<open>test\<close>. When it is not, a request to a path under
  \<^verbatim>\<open>/api/test\<close>, in whatever case of letters, never changes the collection and its outcome
  does not depend on the test router at all, and every such request that the two global
  middleware hand on gets the 404 of the framework. In test mode such a request is handed
  to the test router.
\<close>

theorem test_route_only_in_test_mode:
  "([''api'', ''test''] \<in> set (mount_paths (app env j co tr ter))
      \<longleftrightarrow> env ''NODE_ENV'' = Some ''test'')
   \<and> (env ''NODE_ENV'' \<noteq> Some ''test'' \<and> mount_matches [''api'', ''test''] (url req) \<longrightarrow>
        snd (handle (app env j co tr ter) req s) = s
        \<and> handle (app env j co tr ter') req s = handle (app env j co tr ter) req s
        \<and> (j req = None \<and> co req = None \<longrightarrow>
             handle (app env j co tr ter) req s = (NotFound, s)
             \<and> http_status (fst (handle (app env j co tr ter) req s)) = 404))
   \<and> (env ''NODE_ENV'' = Some ''test'' \<and> mount_matches [''api'', ''test''] (url req)
        \<and> j req = None \<and> co req = None \<longrightarrow>
        handle (app env j co tr ter) req s
          = (case ter (http_method req) (drop 2 (url req)) s of
               Some (r, s') \<Rightarrow> (Responded r, s') | None \<Rightarrow> (NotFound, s)))"
proof (intro conjI impI)
  show "[''api'', ''test''] \<in> set (mount_paths (app env j co tr ter))
      \<longleftrightarrow> env ''NODE_ENV'' = Some ''test''"
    by (simp add: mount_paths_app)
next
  assume a: "env ''NODE_ENV'' \<noteq> Some ''test'' \<and> mount_matches [''api'', ''test''] (url req)"
  then show "snd (handle (app env j co tr ter) req s) = s"
    by (simp add: handle_app_production split: option.splits)
  from a show "handle (app env j co tr ter') req s = handle (app env j co tr ter) req s"
    by (simp add: handle_app_production)
  assume b: "j req = None \<and> co req = None"
  with a show n: "handle (app env j co tr ter) req s = (NotFound, s)"
    by (simp add: handle_app_production)
  show "http_status (fst (handle (app env j co tr ter) req s)) = 404"
    by (simp add: n http_status_def)
next
  assume "env ''NODE_ENV'' = Some ''test'' \<and> mount_matches [''api'', ''test''] (url req)
        \<and> j req = None \<and> co req = None"
  then show "handle (app env j co tr ter) req s
          = (case ter (http_method req) (drop 2 (url req)) s of
               Some (r, s') \<Rightarrow> (Responded r, s') | None \<Rightarrow> (NotFound, s))"
    by (simp add: handle_app_test)
qed

theorem test_route_only_in_test_mode_witness:
  "Map.empty ''NODE_ENV'' \<noteq> Some ''test''
   \<and> mount_matches [''api'', ''test'']
        (url \<lparr>http_method = ''POST'', url = [''api'', ''test'', ''deleteAll'']\<rparr>)
   \<and> pass_on \<lparr>http_method = ''POST'', url = [''api'', ''test'', ''deleteAll'']\<rparr> = None
   \<and> cors_default \<lparr>http_method = ''POST'', url = [''api'', ''test'', ''deleteAll'']\<rparr> = None
   \<and> handle (app Map.empty pass_on cors_default no_routes reset_router)
        \<lparr>http_method = ''POST'', url = [''api'', ''test'', ''deleteAll'']\<rparr> sample_collection
      = (NotFound, sample_collection)
   \<and> [''NODE_ENV'' \<mapsto> ''test''] ''NODE_ENV'' = Some ''test''
   \<and> mount_matches [''api'', ''test'']
        (url \<lparr>http_method = ''POST'', url = [''API'', ''TEST'', ''deleteAll'']\<rparr>)
   \<and> handle (app [''NODE_ENV'' \<mapsto> ''test''] pass_on cors_default no_routes reset_router)
        \<lparr>http_method = ''POST'', url = [''API'', ''TEST'', ''deleteAll'']\<rparr> sample_collection
      = (Responded \<lparr>status = 200, body = Item None\<rparr>, sample_collection\<lparr>docs := []\<rparr>)"
proof -
  have p: "mount_matches [''api'', ''test'']
      (url \<lparr>http_method = ''POST'', url = [''api'', ''test'', ''deleteAll'']\<rparr>)"
    by (simp add: mount_matches_def lower_segments)
  have q: "mount_matches [''api'', ''test'']
      (url \<lparr>http_method = ''POST'', url = [''API'', ''TEST'', ''deleteAll'']\<rparr>)"
    by code_simp
  have n: "pass_on \<lparr>http_method = ''POST'', url = [''api'', ''test'', ''deleteAll'']\<rparr> = None"
    by (simp add: pass_on_def)
  have c: "cors_default \<lparr>http_method = ''POST'', url = [''api'', ''test'', ''deleteAll'']\<rparr> = None"
    by (simp add: cors_default_def)
  have n': "pass_on \<lparr>http_method = ''POST'', url = [''API'', ''TEST'', ''deleteAll'']\<rparr> = None"
    by (simp add: pass_on_def)
  have c': "cors_default \<lparr>http_method = ''POST'', url = [''API'', ''TEST'', ''deleteAll'']\<rparr> = None"
    by (simp add: cors_default_def)
  have off: "Map.empty ''NODE_ENV'' \<noteq> Some ''test''"
    by simp
  have on: "[''NODE_ENV'' \<mapsto> ''test''] ''NODE_ENV'' = Some ''test''"
    by simp
  have d: "reset_router ''POST'' [''deleteAll''] sample_collection
      = Some (\<lparr>status = 200, body = Item None\<rparr>, sample_collection\<lparr>docs := []\<rparr>)"
    unfolding reset_router_def lower_segments by simp
  note r = test_route_only_in_test_mode
  from r [of Map.empty pass_on cors_default no_routes reset_router _ sample_collection reset_router,
        THEN conjunct2, THEN conjunct1, THEN mp, OF conjI [OF off p],
        THEN conjunct2, THEN conjunct2, THEN mp, OF conjI [OF n c], THEN conjunct1]
    r [of "[''NODE_ENV'' \<mapsto> ''test'']" pass_on cors_default no_routes reset_router _ sample_collection
        reset_router,
        THEN conjunct2, THEN conjunct2, THEN mp, OF conjI [OF on conjI [OF q conjI [OF n' c']]]]
    p q n c
  show ?thesis
    by (simp add: d)
qed

end
